theory Spec2Isabelle
  imports Complex_Main "HOL-Library.AList" "HOL-Library.List_Lexorder"
    "HOL-Library.Log_Nat" "HOL-Library.Multiset" "HOL-Library.Word"
begin

section \<open>Go strings\<close>

text \<open>
  A Go string is modelled as a \<^typ>\<open>string\<close>, the list of its bytes. The functions of
  package \<^verbatim>\<open>strings\<close> that the program calls are written out below. Go's white space test
  is \<^verbatim>\<open>unicode.IsSpace\<close>; on single bytes that is the ASCII set
  \<^verbatim>\<open>'\t', '\n', '\v', '\f', '\r', ' '\<close>. (Go also treats the multi-byte UTF-8 encodings of
  U+0085, U+00A0 and the other Unicode spaces as white space; a byte of such an encoding
  is no white space here.)
\<close>

definition isSpace :: "char \<Rightarrow> bool" where
  "isSpace c \<longleftrightarrow> c \<in> set [CHR 0x09, CHR 0x0A, CHR 0x0B, CHR 0x0C, CHR 0x0D, CHR 0x20]"

definition TrimSpace :: "string \<Rightarrow> string" where
  "TrimSpace s = rev (dropWhile isSpace (rev (dropWhile isSpace s)))"

text \<open>\<^verbatim>\<open>strings.Trim(s, cutset)\<close>: strips leading and trailing bytes that occur in the cutset.\<close>

definition Trim :: "string \<Rightarrow> string \<Rightarrow> string" where
  "Trim s cutset =
     rev (dropWhile (\<lambda>c. c \<in> set cutset) (rev (dropWhile (\<lambda>c. c \<in> set cutset) s)))"

definition HasPrefix :: "string \<Rightarrow> string \<Rightarrow> bool" where
  "HasPrefix s p \<longleftrightarrow> take (length p) s = p"

definition HasSuffix :: "string \<Rightarrow> string \<Rightarrow> bool" where
  "HasSuffix s p \<longleftrightarrow> length p \<le> length s \<and> drop (length s - length p) s = p"

text \<open>
  \<^verbatim>\<open>strings.Split(s, sep)\<close> for a separator of one byte, the only kind the program uses:
  the pieces between the separators, empty pieces included, so that the empty string
  gives one empty piece.
\<close>

fun Split :: "string \<Rightarrow> char \<Rightarrow> string list" where
  "Split [] sep = [[]]"
| "Split (c # cs) sep =
     (if c = sep then [] # Split cs sep
      else (case Split cs sep of [] \<Rightarrow> [[c]] | w # ws \<Rightarrow> (c # w) # ws))"

text \<open>
  \<^verbatim>\<open>strings.SplitN(s, sep, 2)\<close> for a separator of one byte: the string itself when the
  separator does not occur, otherwise what is before and what is after its first occurrence.
\<close>

definition SplitN2 :: "string \<Rightarrow> char \<Rightarrow> string list" where
  "SplitN2 s sep =
     (if sep \<in> set s
      then [takeWhile (\<lambda>c. c \<noteq> sep) s, drop 1 (dropWhile (\<lambda>c. c \<noteq> sep) s)]
      else [s])"

text \<open>
  \<^verbatim>\<open>strings.Fields(s)\<close>: the maximal runs of bytes that are no white space. The first
  argument of \<open>fieldsFrom\<close> is the run read so far.
\<close>

fun fieldsFrom :: "string \<Rightarrow> string \<Rightarrow> string list" where
  "fieldsFrom cur [] = (if cur = [] then [] else [cur])"
| "fieldsFrom cur (c # cs) =
     (if isSpace c then (if cur = [] then fieldsFrom [] cs else cur # fieldsFrom [] cs)
      else fieldsFrom (cur @ [c]) cs)"

definition Fields :: "string \<Rightarrow> string list" where
  "Fields s = fieldsFrom [] s"

section \<open>The document tree\<close>

text \<open>
  \<^verbatim>\<open>html.Node\<close> of \<^verbatim>\<open>golang.org/x/net/html\<close>: a node has a type, its data (the tag name of an
  element, the text of a text node), an attribute list and its children in sibling order.
  A pointer to a node of a document is the path of child indices that leads to it from the
  root.
\<close>

datatype NodeType =
  ErrorNode | TextNode | DocumentNode | ElementNode | CommentNode | DoctypeNode | RawNode

record Attribute =
  Namespace :: string
  Key :: string
  Val :: string

datatype Node =
  Node (NType: NodeType) (Data: string) (Attr: "Attribute list") (Children: "Node list")

type_synonym path = "nat list"


subsection \<open>Attribute helpers\<close>

definition getAttr :: "Node \<Rightarrow> string \<Rightarrow> string" where
  "getAttr node key =
     (if NType node \<noteq> ElementNode then []
      else (case find (\<lambda>a. Key a = key) (Attr node) of Some a \<Rightarrow> Val a | None \<Rightarrow> []))"

definition hasAttr :: "Node \<Rightarrow> string \<Rightarrow> bool" where
  "hasAttr node key \<longleftrightarrow>
     (if NType node \<noteq> ElementNode then False
      else find (\<lambda>a. Key a = key) (Attr node) \<noteq> None)"

definition hasClass :: "Node \<Rightarrow> string \<Rightarrow> bool" where
  "hasClass node className \<longleftrightarrow>
     (if NType node \<noteq> ElementNode then False
      else className \<in> set (Fields (getAttr node ''class'')))"

subsection \<open>Selector resolution\<close>

text \<open>
  The match function that \<^verbatim>\<open>findNodesBySelector\<close> builds from the trimmed selector. The
  slice \<^verbatim>\<open>selector[1 : len(selector)-1]\<close> is taken only when the selector starts with
  \<^verbatim>\<open>[\<close> and ends with \<^verbatim>\<open>]\<close>, so it has at least two bytes there.
\<close>

definition matchFunc :: "string \<Rightarrow> Node \<Rightarrow> bool" where
  "matchFunc selector n =
     (if HasPrefix selector ''.'' then hasClass n (drop 1 selector)
      else if HasPrefix selector ''#'' then getAttr n ''id'' = drop 1 selector
      else if HasPrefix selector ''['' \<and> HasSuffix selector '']'' then
        (let attrStr = take (length selector - 2) (drop 1 selector);
             parts = SplitN2 attrStr CHR ''='';
             attrKey = TrimSpace (hd parts)
         in if length parts = 1 then hasAttr n attrKey
            else getAttr n attrKey = Trim (TrimSpace (parts ! 1)) [CHR 0x22, CHR 0x27])
      else NType n = ElementNode \<and> Data n = selector)"

text \<open>
  The recursive closure \<^verbatim>\<open>walk\<close>: test the node, then walk the children from the first
  child along the sibling links. The second argument is the path of the node walked.
\<close>

fun walk :: "(Node \<Rightarrow> bool) \<Rightarrow> path \<Rightarrow> Node \<Rightarrow> path list"
  and walkSiblings :: "(Node \<Rightarrow> bool) \<Rightarrow> path \<Rightarrow> nat \<Rightarrow> Node list \<Rightarrow> path list" where
  "walk m p (Node t d a cs) =
     (if m (Node t d a cs) then [p] else []) @ walkSiblings m p 0 cs"
| "walkSiblings m p i [] = []"
| "walkSiblings m p i (c # cs) = walk m (p @ [i]) c @ walkSiblings m p (Suc i) cs"

definition findNodesBySelector :: "Node \<Rightarrow> string \<Rightarrow> path list" where
  "findNodesBySelector doc selector = walk (matchFunc (TrimSpace selector)) [] doc"

section \<open>The mutation engine\<close>

subsection \<open>Operations and errors\<close>

record Operation =
  Type :: string
  Selector :: string
  Value :: string
  Property :: string
  Priority :: int

abbreviation OpSetText :: string where "OpSetText \<equiv> ''setText''"
abbreviation OpSetStyle :: string where "OpSetStyle \<equiv> ''setStyle''"
abbreviation OpSetAttr :: string where "OpSetAttr \<equiv> ''setAttr''"
abbreviation OpSetHTML :: string where "OpSetHTML \<equiv> ''setHTML''"
abbreviation OpRemove :: string where "OpRemove \<equiv> ''remove''"
abbreviation OpHide :: string where "OpHide \<equiv> ''hide''"
abbreviation OpShow :: string where "OpShow \<equiv> ''show''"

text \<open>The operation types that \<^verbatim>\<open>applyOperation\<close> knows.\<close>

definition knownTypes :: "string list" where
  "knownTypes = [OpSetText, OpSetStyle, OpSetAttr, OpSetHTML, OpRemove, OpHide, OpShow]"

text \<open>
  A Go \<^verbatim>\<open>error\<close> value: the deadline of a context that ran out, a failure with its message,
  or an error wrapped by \<^verbatim>\<open>fmt.Errorf("...: %w", err)\<close>.
\<close>

datatype error = DeadlineExceeded | Failure string | Wrapped string error

subsection \<open>Mutations of one node\<close>

text \<open>
  \<^verbatim>\<open>setText\<close>: every child is removed, then one text node is appended.
\<close>

definition setText :: "Node \<Rightarrow> string \<Rightarrow> Node" where
  "setText node text =
     Node (NType node) (Data node) (Attr node) [Node TextNode text [] []]"

text \<open>
  Writing the value of the first attribute with a given key, as
  \<^verbatim>\<open>node.Attr[i].Val = value; break\<close> does.
\<close>

fun setFirstVal :: "string \<Rightarrow> string \<Rightarrow> Attribute list \<Rightarrow> Attribute list" where
  "setFirstVal key v [] = []"
| "setFirstVal key v (a # as) =
     (if Key a = key then a\<lparr>Val := v\<rparr> # as else a # setFirstVal key v as)"

definition setAttr :: "Node \<Rightarrow> string \<Rightarrow> string \<Rightarrow> Node" where
  "setAttr node key v =
     (if NType node \<noteq> ElementNode then node
      else if find (\<lambda>a. Key a = key) (Attr node) \<noteq> None
      then Node (NType node) (Data node) (setFirstVal key v (Attr node)) (Children node)
      else Node (NType node) (Data node)
             (Attr node @ [\<lparr>Namespace = [], Key = key, Val = v\<rparr>]) (Children node))"

text \<open>
  \<^verbatim>\<open>setStyle\<close> keeps the declarations in a Go \<^verbatim>\<open>map[string]string\<close>. The map is an
  association list with distinct keys: \<open>AList.update\<close> is the assignment
  \<^verbatim>\<open>styles[k] = v\<close> and \<open>AList.delete\<close> is \<^verbatim>\<open>delete(styles, k)\<close>.
\<close>

type_synonym styleMap = "(string \<times> string) list"

definition parseStyle :: "string \<Rightarrow> styleMap" where
  "parseStyle s =
     foldl (\<lambda>styles part0.
              let part = TrimSpace part0 in
              if part = [] then styles
              else (let kv = SplitN2 part CHR '':'' in
                    if length kv = 2
                    then AList.update (TrimSpace (kv ! 0)) (TrimSpace (kv ! 1)) styles
                    else styles))
       [] (Split s CHR '';'')"

text \<open>The \<^verbatim>\<open>strings.Builder\<close> loop over the entries, in the order the range yields them.\<close>

definition writeStyle :: "(string \<times> string) list \<Rightarrow> string" where
  "writeStyle kvs =
     foldl (\<lambda>styleStr (k, v).
              (if length styleStr > 0 then styleStr @ ''; '' else styleStr) @ k @ '': '' @ v)
       [] kvs"

text \<open>
  The order in which \<^verbatim>\<open>for k, v := range styles\<close> yields the entries of a map is chosen by
  the Go runtime, anew at every loop. The choice is a parameter of the model: a function
  from the map to the sequence of its entries as yielded. It is a possible choice of the
  runtime when it yields every entry once.
\<close>

type_synonym rangeOrder = "styleMap \<Rightarrow> (string \<times> string) list"

definition yieldsEachOnce :: "rangeOrder \<Rightarrow> bool" where
  "yieldsEachOnce ord \<longleftrightarrow> (\<forall>m. mset (ord m) = mset m)"

definition setStyle :: "rangeOrder \<Rightarrow> Node \<Rightarrow> string \<Rightarrow> string \<Rightarrow> Node" where
  "setStyle ord node property v =
     (if NType node \<noteq> ElementNode then node
      else
        let styleAttr = find (\<lambda>a. Key a = ''style'') (Attr node);
            parsed = (case styleAttr of None \<Rightarrow> [] | Some a \<Rightarrow> parseStyle (Val a));
            styles = (if v = [] then AList.delete property parsed
                      else AList.update property v parsed);
            styleStr = writeStyle (ord styles)
        in case styleAttr of
             Some a \<Rightarrow>
               Node (NType node) (Data node) (setFirstVal ''style'' styleStr (Attr node))
                 (Children node)
           | None \<Rightarrow>
               Node (NType node) (Data node)
                 (Attr node @ [\<lparr>Namespace = [], Key = ''style'', Val = styleStr\<rparr>])
                 (Children node))"

text \<open>
  \<^verbatim>\<open>setHTML\<close>: every child is removed; the nodes that \<^verbatim>\<open>html.ParseFragment\<close> returns for the
  content (in the context of a \<^verbatim>\<open>div\<close>) become the children, and none when it fails. The
  parser belongs to \<^verbatim>\<open>golang.org/x/net/html\<close> and is a parameter.
\<close>

definition setHTML :: "(string \<Rightarrow> error + Node list) \<Rightarrow> Node \<Rightarrow> string \<Rightarrow> Node" where
  "setHTML parseFragment node htmlContent =
     (case parseFragment htmlContent of
        Inl err \<Rightarrow> Node (NType node) (Data node) (Attr node) []
      | Inr nodes \<Rightarrow> Node (NType node) (Data node) (Attr node) nodes)"

subsection \<open>Mutations through pointers\<close>

text \<open>
  \<^verbatim>\<open>applyOperation\<close> first collects pointers to the matching nodes and then mutates them
  one after the other. A pointer is the path of a node of the document, or \<open>None\<close> once an
  earlier mutation has detached the node from the document: a detached node is still
  mutated by the Go code, but nothing of it is reachable from the document any more.
\<close>

type_synonym ptr = "path option"

fun updateAt :: "(Node \<Rightarrow> Node) \<Rightarrow> path \<Rightarrow> Node \<Rightarrow> Node" where
  "updateAt f [] n = f n"
| "updateAt f (i # p) n =
     (if i < length (Children n)
      then Node (NType n) (Data n) (Attr n)
             ((Children n)[i := updateAt f p (Children n ! i)])
      else n)"

definition mutate :: "ptr \<Rightarrow> (Node \<Rightarrow> Node) \<Rightarrow> Node \<Rightarrow> Node" where
  "mutate r f doc = (case r of None \<Rightarrow> doc | Some p \<Rightarrow> updateAt f p doc)"

text \<open>
  \<^verbatim>\<open>removeNode\<close>: the node is taken out of the child list of its parent; the root of the
  document has no parent and stays.
\<close>

definition dropChild :: "nat \<Rightarrow> Node \<Rightarrow> Node" where
  "dropChild i n =
     Node (NType n) (Data n) (Attr n) (take i (Children n) @ drop (Suc i) (Children n))"

definition removeNode :: "ptr \<Rightarrow> Node \<Rightarrow> Node" where
  "removeNode r doc =
     (case r of
        None \<Rightarrow> doc
      | Some p \<Rightarrow> if p = [] then doc else updateAt (dropChild (last p)) (butlast p) doc)"

text \<open>
  What a pointer still held points to afterwards. After the children of the node at \<open>r\<close>
  were replaced, every pointer strictly below \<open>r\<close> is detached. After the node at \<open>r\<close> was
  removed, the pointers at and below \<open>r\<close> are detached and the later siblings of \<open>r\<close>, with
  all below them, have moved one place to the left.
\<close>

definition afterReplace :: "ptr \<Rightarrow> ptr \<Rightarrow> ptr" where
  "afterReplace r q =
     (case (r, q) of
        (Some p, Some x) \<Rightarrow>
          if length p < length x \<and> take (length p) x = p then None else Some x
      | _ \<Rightarrow> q)"

definition afterRemove :: "ptr \<Rightarrow> ptr \<Rightarrow> ptr" where
  "afterRemove r q =
     (case (r, q) of
        (Some p, Some x) \<Rightarrow>
          if p = [] then Some x
          else if take (length p) x = p then None
          else if length p \<le> length x \<and> take (length p - 1) x = butlast p
                  \<and> last p < x ! (length p - 1)
          then Some (x[length p - 1 := x ! (length p - 1) - 1])
          else Some x
      | _ \<Rightarrow> q)"

subsection \<open>Applying operations\<close>

text \<open>
  What the engine takes from outside: the fragment parser and, for the \<open>j\<close>-th node of the
  \<open>i\<close>-th operation of a batch, the order in which the runtime ranges over the style map.
\<close>

record Engine =
  ParseFragment :: "string \<Rightarrow> error + Node list"
  RangeStyles :: "nat \<Rightarrow> nat \<Rightarrow> rangeOrder"

text \<open>
  The loop \<^verbatim>\<open>for _, node := range nodes { switch op.Type { ... } }\<close> of
  \<^verbatim>\<open>applyOperation\<close>; \<open>j\<close> counts the nodes done. The result is the error returned, if any,
  and the document as it is then.
\<close>

fun applyNodes ::
  "Engine \<Rightarrow> nat \<Rightarrow> Operation \<Rightarrow> nat \<Rightarrow> ptr list \<Rightarrow> Node \<Rightarrow> error option \<times> Node" where
  "applyNodes E i op j [] doc = (None, doc)"
| "applyNodes E i op j (r # rs) doc =
     (if Type op = OpSetText then
        applyNodes E i op (Suc j) (map (afterReplace r) rs)
          (mutate r (\<lambda>n. setText n (Value op)) doc)
      else if Type op = OpSetStyle then
        applyNodes E i op (Suc j) rs
          (mutate r (\<lambda>n. setStyle (RangeStyles E i j) n (Property op) (Value op)) doc)
      else if Type op = OpSetAttr then
        applyNodes E i op (Suc j) rs
          (mutate r (\<lambda>n. setAttr n (Property op) (Value op)) doc)
      else if Type op = OpSetHTML then
        applyNodes E i op (Suc j) (map (afterReplace r) rs)
          (mutate r (\<lambda>n. setHTML (ParseFragment E) n (Value op)) doc)
      else if Type op = OpRemove then
        applyNodes E i op (Suc j) (map (afterRemove r) rs) (removeNode r doc)
      else if Type op = OpHide then
        applyNodes E i op (Suc j) rs
          (mutate r (\<lambda>n. setStyle (RangeStyles E i j) n ''display'' ''none'') doc)
      else if Type op = OpShow then
        applyNodes E i op (Suc j) rs
          (mutate r (\<lambda>n. setStyle (RangeStyles E i j) n ''display'' []) doc)
      else (Some (Failure (''unknown operation type: '' @ Type op)), doc))"

definition applyOperation ::
  "Engine \<Rightarrow> nat \<Rightarrow> Node \<Rightarrow> Operation \<Rightarrow> error option \<times> Node" where
  "applyOperation E i doc op =
     (let nodes = findNodesBySelector doc (Selector op) in
      if length nodes = 0
      then (Some (Failure (''no elements found for selector: '' @ Selector op)), doc)
      else applyNodes E i op 0 (map Some nodes) doc)"

text \<open>
  \<^verbatim>\<open>ApplyTransformations\<close>: the loop over the operations, \<open>i\<close> counting them. An error of an
  operation is printed as a warning and dropped; the warnings printed are the third
  component of the state. The function returns \<^verbatim>\<open>nil\<close> at its end.
\<close>

fun applyEach ::
  "Engine \<Rightarrow> nat \<Rightarrow> Operation list \<Rightarrow> Node \<times> (Operation \<times> error) list
     \<Rightarrow> Node \<times> (Operation \<times> error) list" where
  "applyEach E i [] st = st"
| "applyEach E i (op # ops) (doc, warnings) =
     (case applyOperation E i doc op of
        (Some err, doc') \<Rightarrow> applyEach E (Suc i) ops (doc', warnings @ [(op, err)])
      | (None, doc') \<Rightarrow> applyEach E (Suc i) ops (doc', warnings))"

definition ApplyTransformations ::
  "Engine \<Rightarrow> Node \<Rightarrow> Operation list \<Rightarrow> error option \<times> Node \<times> (Operation \<times> error) list" where
  "ApplyTransformations E doc operations =
     (let (doc', warnings) = applyEach E 0 operations (doc, []) in (None, doc', warnings))"

section \<open>Variant assignment\<close>

subsection \<open>Variants\<close>

text \<open>
  The traffic allocation of a variant is a Go \<^verbatim>\<open>float64\<close>. A \<^verbatim>\<open>float64\<close> is modelled by
  the number it denotes: a rational, an infinity, or no number. (The sign of a zero is left
  out: it has no effect on sums, products and comparisons.) Every operation is the exact
  operation followed by rounding to the nearest \<^verbatim>\<open>binary64\<close> value, ties to the even
  significand, as IEEE 754 prescribes and Go implements.
\<close>

datatype float64 = Finite rat | PosInf | NegInf | NaN

definition pow2 :: "int \<Rightarrow> rat" where
  "pow2 e = (if 0 \<le> e then 2 ^ nat e else 1 / 2 ^ nat (- e))"

text \<open>
  The greatest \<open>e\<close> with \<open>2 ^ e \<le> a\<close>, for a positive \<open>a\<close>: one less than the number of bits
  of the integer part of \<open>a\<close> from \<open>1\<close> on, and below \<open>1\<close> the negated least power of two
  that reaches \<open>1 / a\<close>.
\<close>

definition floorLog2 :: "rat \<Rightarrow> int" where
  "floorLog2 a = (if 1 \<le> a then bitlen \<lfloor>a\<rfloor> - 1 else - bitlen (\<lceil>1 / a\<rceil> - 1))"

definition roundHalfEven :: "rat \<Rightarrow> int" where
  "roundHalfEven x =
     (let f = \<lfloor>x\<rfloor>; d = x - of_int f
      in if d < 1 / 2 then f else if 1 / 2 < d then f + 1 else if even f then f else f + 1)"

text \<open>
  Rounding to \<^verbatim>\<open>binary64\<close>: 53 bits of significand, the least exponent \<open>-1022\<close> (below it the
  values are subnormal, with the spacing \<open>2 ^ -1074\<close>), overflow to an infinity from
  \<open>2 ^ 1024\<close> on.
\<close>

definition round64 :: "rat \<Rightarrow> float64" where
  "round64 a =
     (if a = 0 then Finite 0
      else
        let e = max (floorLog2 \<bar>a\<bar>) (- 1022);
            ulp = pow2 (e - 52);
            r = of_int (roundHalfEven (\<bar>a\<bar> / ulp)) * ulp
        in if pow2 1024 \<le> r then (if 0 < a then PosInf else NegInf)
           else Finite (if 0 < a then r else - r))"

fun fadd :: "float64 \<Rightarrow> float64 \<Rightarrow> float64" where
  "fadd (Finite a) (Finite b) = round64 (a + b)"
| "fadd NaN y = NaN"
| "fadd x NaN = NaN"
| "fadd PosInf NegInf = NaN"
| "fadd NegInf PosInf = NaN"
| "fadd PosInf y = PosInf"
| "fadd NegInf y = NegInf"
| "fadd x PosInf = PosInf"
| "fadd x NegInf = NegInf"

fun fmul :: "float64 \<Rightarrow> float64 \<Rightarrow> float64" where
  "fmul (Finite a) (Finite b) = round64 (a * b)"
| "fmul NaN y = NaN"
| "fmul x NaN = NaN"
| "fmul (Finite a) PosInf = (if a = 0 then NaN else if 0 < a then PosInf else NegInf)"
| "fmul (Finite a) NegInf = (if a = 0 then NaN else if 0 < a then NegInf else PosInf)"
| "fmul PosInf (Finite b) = (if b = 0 then NaN else if 0 < b then PosInf else NegInf)"
| "fmul NegInf (Finite b) = (if b = 0 then NaN else if 0 < b then NegInf else PosInf)"
| "fmul PosInf PosInf = PosInf"
| "fmul PosInf NegInf = NegInf"
| "fmul NegInf PosInf = NegInf"
| "fmul NegInf NegInf = PosInf"

fun flt :: "float64 \<Rightarrow> float64 \<Rightarrow> bool" where
  "flt (Finite a) (Finite b) = (a < b)"
| "flt NaN y = False"
| "flt x NaN = False"
| "flt x NegInf = False"
| "flt PosInf y = False"
| "flt NegInf y = True"
| "flt x PosInf = True"

text \<open>The conversion \<^verbatim>\<open>float64(bucket)\<close> of an \<^verbatim>\<open>int\<close>.\<close>

definition float64_of_int :: "int \<Rightarrow> float64" where
  "float64_of_int i = round64 (of_int i)"

record Variant =
  ID :: string
  Name :: string
  IsControl :: bool
  TrafficAllocation :: float64

subsection \<open>Hexadecimal\<close>

type_synonym byte = "8 word"

definition hexDigit :: "nat \<Rightarrow> char" where
  "hexDigit d = ''0123456789abcdef'' ! d"

text \<open>\<^verbatim>\<open>hex.EncodeToString\<close>: two lower-case digits for every byte.\<close>

definition EncodeToString :: "byte list \<Rightarrow> string" where
  "EncodeToString bs =
     concat (map (\<lambda>b. [hexDigit (unat b div 16), hexDigit (unat b mod 16)]) bs)"

definition hexValue :: "char \<Rightarrow> nat option" where
  "hexValue c =
     (let n = of_char c :: nat in
      if 48 \<le> n \<and> n \<le> 57 then Some (n - 48)
      else if 97 \<le> n \<and> n \<le> 102 then Some (n - 97 + 10)
      else if 65 \<le> n \<and> n \<le> 70 then Some (n - 65 + 10)
      else None)"

text \<open>
  \<^verbatim>\<open>strconv.ParseUint(s, 16, 64)\<close>: the value of the digits, most significant first; an
  error (\<open>None\<close>) for the empty string, for a byte that is no hexadecimal digit, and for a
  value that does not fit 64 bits.
\<close>

fun parseHex :: "nat \<Rightarrow> string \<Rightarrow> nat option" where
  "parseHex acc [] = Some acc"
| "parseHex acc (c # cs) =
     (case hexValue c of
        None \<Rightarrow> None
      | Some d \<Rightarrow> if 2 ^ 64 \<le> 16 * acc + d then None else parseHex (16 * acc + d) cs)"

definition ParseUint16 :: "string \<Rightarrow> nat option" where
  "ParseUint16 s = (if s = [] then None else parseHex 0 s)"

subsection \<open>The assigner\<close>

text \<open>
  \<^verbatim>\<open>type Assigner struct { salt string }\<close>
\<close>

record Assigner =
  salt :: string

text \<open>
  \<^verbatim>\<open>func NewAssigner(salt string) *Assigner\<close>: the constructor has no error result; an empty
  salt is replaced by a literal of the source.
\<close>

definition NewAssigner :: "string \<Rightarrow> Assigner" where
  "NewAssigner s =
     \<lparr>salt = (if s = [] then ''default-salt-change-in-production'' else s)\<rparr>"

text \<open>
  What the assigner takes from the Go library: \<^verbatim>\<open>crypto/hmac\<close> with \<^verbatim>\<open>crypto/sha256\<close>
  (the digest of a message under a key, 32 bytes), \<^verbatim>\<open>crypto/sha256\<close> alone, and the draws
  of \<^verbatim>\<open>math/rand\<close>: \<open>RandIntn n\<close> is what \<^verbatim>\<open>rand.Intn(n)\<close> returns.
\<close>

record Library =
  HmacSHA256 :: "string \<Rightarrow> string \<Rightarrow> byte list"
  SHA256 :: "string \<Rightarrow> byte list"
  RandIntn :: "nat \<Rightarrow> nat"

text \<open>
  \<^verbatim>\<open>getBucket\<close>. The slice \<^verbatim>\<open>hash[:8]\<close> is in range, the hexadecimal digest having 64
  bytes.
\<close>

definition getBucket :: "Library \<Rightarrow> Assigner \<Rightarrow> string \<Rightarrow> string \<Rightarrow> int" where
  "getBucket L a userID experimentID =
     (let hash = EncodeToString (HmacSHA256 L (salt a) (userID @ '':'' @ experimentID)) in
      case ParseUint16 (take 8 hash) of
        None \<Rightarrow> int (RandIntn L 100)
      | Some hashInt \<Rightarrow> int (hashInt mod 100))"

text \<open>
  The loop of \<^verbatim>\<open>AssignVariant\<close> over the variants, with the running sum \<open>cumulative\<close>;
  \<open>None\<close> when the loop ends without a return.
\<close>

fun assignWalk :: "int \<Rightarrow> float64 \<Rightarrow> Variant list \<Rightarrow> Variant option" where
  "assignWalk bucket cumulative [] = None"
| "assignWalk bucket cumulative (v # vs) =
     (let cumulative' = fadd cumulative (TrafficAllocation v) in
      if flt (float64_of_int bucket) (fmul cumulative' (Finite 100)) then Some v
      else assignWalk bucket cumulative' vs)"

definition AssignVariant ::
  "Library \<Rightarrow> Assigner \<Rightarrow> string \<Rightarrow> string \<Rightarrow> Variant list \<Rightarrow> Variant option" where
  "AssignVariant L a userID experimentID variants =
     (if length variants = 0 then None
      else if length variants = 1 then Some (variants ! 0)
      else
        let bucket = getBucket L a userID experimentID in
        case assignWalk bucket (Finite 0) variants of
          Some v \<Rightarrow> Some v
        | None \<Rightarrow> Some (variants ! 0))"

text \<open>Decimal digits of a number, as \<^verbatim>\<open>%d\<close> prints it.\<close>

function showNat :: "nat \<Rightarrow> string" where
  "showNat n =
     (if n < 10 then [''0123456789'' ! n]
      else showNat (n div 10) @ [''0123456789'' ! (n mod 10)])"
  by pat_completeness auto
termination
  by (relation "measure id") auto

declare showNat.simps [simp del]

definition showInt :: "int \<Rightarrow> string" where
  "showInt i = (if i < 0 then CHR ''-'' # showNat (nat (- i)) else showNat (nat i))"

text \<open>
  \<^verbatim>\<open>GetUserID\<close>: the cookie value, else 16 hexadecimal digits of the SHA-256 digest of
  address and user agent, else a random anonymous token.
\<close>

definition GetUserID :: "Library \<Rightarrow> string \<Rightarrow> string \<Rightarrow> string \<Rightarrow> string" where
  "GetUserID L cookieValue ipAddress userAgent =
     (if cookieValue \<noteq> [] then cookieValue
      else if ipAddress \<noteq> [] \<or> userAgent \<noteq> []
      then take 16 (EncodeToString (SHA256 L (ipAddress @ '':'' @ userAgent)))
      else ''anon_'' @ showNat (RandIntn L 1000000))"

section \<open>The orchestrator\<close>

subsection \<open>Data\<close>

record TransformSpec =
  Version :: string
  ExperimentID :: string
  VariantID :: string
  VariantKey :: string
  Operations :: "Operation list"
  TTL :: int
  CacheKey :: string
  ExperimentVersion :: string

text \<open>\<^verbatim>\<open>config.Config\<close>; the durations in nanoseconds.\<close>

record Config =
  Port :: string
  OriginURL :: string
  ReadTimeout :: int
  WriteTimeout :: int
  APIBaseURL :: string
  EdgeToken :: string
  Timeout :: int
  FailOpen :: bool
  EnableLogging :: bool
  EnableMetrics :: bool

text \<open>
  \<^verbatim>\<open>http.Header\<close>, a map from header names to the lists of their values, with its methods
  \<^verbatim>\<open>Get\<close>, \<^verbatim>\<open>Set\<close> and \<^verbatim>\<open>Add\<close>. (Go brings a name into its canonical form before every
  access; a name stands for its canonical form here.)
\<close>

type_synonym Header = "string \<rightharpoonup> string list"

definition HeaderGet :: "Header \<Rightarrow> string \<Rightarrow> string" where
  "HeaderGet h k = (case h k of None \<Rightarrow> [] | Some vs \<Rightarrow> (case vs of [] \<Rightarrow> [] | v # _ \<Rightarrow> v))"

definition HeaderSet :: "Header \<Rightarrow> string \<Rightarrow> string \<Rightarrow> Header" where
  "HeaderSet h k v = h(k \<mapsto> [v])"

definition HeaderAdd :: "Header \<Rightarrow> string \<Rightarrow> string \<Rightarrow> Header" where
  "HeaderAdd h k v = h(k \<mapsto> (case h k of None \<Rightarrow> [] | Some vs \<Rightarrow> vs) @ [v])"

text \<open>
  The body of a response is a stream (\<^verbatim>\<open>io.ReadCloser\<close>): the bytes not read yet, the
  error the stream ends with if it does not end well, and whether it was closed.
  \<^verbatim>\<open>io.ReadAll\<close> drains the stream.
\<close>

record Body =
  Unread :: string
  ReadError :: "error option"
  Closed :: bool

definition ReadAll :: "Body \<Rightarrow> (error + string) \<times> Body" where
  "ReadAll b =
     (case ReadError b of
        Some err \<Rightarrow> (Inl err, b\<lparr>Unread := []\<rparr>)
      | None \<Rightarrow> (Inr (Unread b), b\<lparr>Unread := []\<rparr>))"

record Response =
  Header :: Header
  Body :: Body
  ContentLength :: int

text \<open>
  Of a request, the cookies it carries (name and value, in the order of the request),
  the remote address and the user agent. \<^verbatim>\<open>req.Cookie(name)\<close> returns the first cookie
  of that name, or an error when there is none.
\<close>

record Request =
  Cookies :: "(string \<times> string) list"
  RemoteAddr :: string
  UserAgent :: string

definition Cookie :: "Request \<Rightarrow> string \<Rightarrow> string option" where
  "Cookie req name = map_of (Cookies req) name"

datatype SameSite = SameSiteDefaultMode | SameSiteLaxMode | SameSiteStrictMode | SameSiteNoneMode

record SetCookie =
  CookieName :: string
  CookieValue :: string
  MaxAge :: int
  Path :: string
  HttpOnly :: bool
  SameSiteMode :: SameSite

text \<open>\<^verbatim>\<open>strings.Contains\<close>.\<close>

definition Contains :: "string \<Rightarrow> string \<Rightarrow> bool" where
  "Contains s sub \<longleftrightarrow>
     list_ex (\<lambda>i. take (length sub) (drop i s) = sub) [0 ..< Suc (length s)]"

subsection \<open>Collaborators\<close>

text \<open>
  What the orchestrator calls and does not own. The two calls of the API client, each
  bounded by the deadline of the attempt: their result is the answer of the service, or
  the error of the call (\<open>DeadlineExceeded\<close> when the deadline ran out). The parser and the
  renderer of \<^verbatim>\<open>golang.org/x/net/html\<close>. For each experiment, the engine parameters of its
  mutation pass. The Go library of the assigner. \<^verbatim>\<open>http.Cookie.String\<close>. The milliseconds
  elapsed since the start of \<^verbatim>\<open>ModifyResponse\<close> when the headers of an experiment are
  written. The order in which the runtime ranges over the experiment map.
\<close>

record World =
  GetVariants :: "string \<Rightarrow> error + Variant list"
  GetTransformSpec :: "string \<Rightarrow> string \<Rightarrow> error + TransformSpec"
  HtmlParse :: "string \<Rightarrow> error + Node"
  HtmlRender :: "Node \<Rightarrow> error + string"
  EngineOf :: "string \<Rightarrow> Engine"
  GoLibrary :: Library
  CookieString :: "SetCookie \<Rightarrow> string"
  SinceMs :: "string \<Rightarrow> int"
  RangeExperiments :: "string list \<Rightarrow> string list"

subsection \<open>The middleware\<close>

text \<open>
  \<^verbatim>\<open>ExperiFlowMiddleware\<close>: the configuration, the assigner, and the keys of the map of
  active experiments (each key once). The API client is represented by its two calls in
  \<open>World\<close>.
\<close>

record ExperiFlowMiddleware =
  config :: Config
  assigner :: Assigner
  experiments :: "string list"

definition NewExperiFlowMiddleware :: "Config \<Rightarrow> string list \<Rightarrow> ExperiFlowMiddleware" where
  "NewExperiFlowMiddleware cfg experimentIDs =
     \<lparr>config = cfg,
      assigner = NewAssigner ''production-salt'',
      experiments = remdups experimentIDs\<rparr>"

definition isHTML :: "Response \<Rightarrow> bool" where
  "isHTML resp \<longleftrightarrow> Contains (HeaderGet (Header resp) ''Content-Type'') ''text/html''"

definition addHeaders :: "World \<Rightarrow> Response \<Rightarrow> string \<Rightarrow> string \<Rightarrow> string \<Rightarrow> Response" where
  "addHeaders W resp experimentID variantKey status =
     resp\<lparr>Header :=
       HeaderSet
         (HeaderSet
           (HeaderSet
             (HeaderSet (Header resp) ''X-EF-Experiment'' experimentID)
             ''X-EF-Variant'' variantKey)
           ''X-EF-Transform'' status)
         ''X-EF-Timing'' (''total='' @ showInt (SinceMs W experimentID) @ ''ms'')\<rparr>"

text \<open>
  \<^verbatim>\<open>getOrAssignVariant\<close> returns the variant id, the variant key and whether the assignment
  is new.
\<close>

definition getOrAssignVariant ::
  "World \<Rightarrow> ExperiFlowMiddleware \<Rightarrow> Request \<Rightarrow> string \<Rightarrow> string \<Rightarrow> string \<times> string \<times> bool" where
  "getOrAssignVariant W m req experimentID cookieName =
     (let fromCookie = (case Cookie req cookieName of None \<Rightarrow> [] | Some v \<Rightarrow> v) in
      if Cookie req cookieName \<noteq> None \<and> fromCookie \<noteq> [] then (fromCookie, [], False)
      else
        case GetVariants W experimentID of
          Inl err \<Rightarrow> ([], [], False)
        | Inr variants \<Rightarrow>
            if length variants = 0 then ([], [], False)
            else
              let userID = GetUserID (GoLibrary W) [] (RemoteAddr req) (UserAgent req) in
              case AssignVariant (GoLibrary W) (assigner m) userID experimentID variants of
                None \<Rightarrow> ([], [], False)
              | Some assigned \<Rightarrow> (ID assigned, Name assigned, True))"

text \<open>
  \<^verbatim>\<open>applyExperiment\<close> mutates the response it is given and returns an error or \<^verbatim>\<open>nil\<close>;
  the result here is the error, if any, and the response as it is then. Its second step,
  the cookie of a new assignment, and its steps four to nine, from reading the body to the
  headers of a hit, are written as functions of their own.
\<close>

definition setAssignmentCookie ::
  "World \<Rightarrow> Response \<Rightarrow> string \<Rightarrow> string \<Rightarrow> bool \<Rightarrow> Response" where
  "setAssignmentCookie W resp cookieName variantID isNew =
     (if isNew then
        (let cookie = CookieString W
               \<lparr>CookieName = cookieName, CookieValue = variantID, MaxAge = 30 * 24 * 60 * 60,
                Path = ''/'', HttpOnly = True, SameSiteMode = SameSiteLaxMode\<rparr>
         in if HeaderGet (Header resp) ''Set-Cookie'' = []
            then resp\<lparr>Header := HeaderSet (Header resp) ''Set-Cookie'' cookie\<rparr>
            else resp\<lparr>Header := HeaderAdd (Header resp) ''Set-Cookie'' cookie\<rparr>)
      else resp)"

definition transformBody ::
  "World \<Rightarrow> Response \<Rightarrow> string \<Rightarrow> string \<Rightarrow> TransformSpec \<Rightarrow> error option \<times> Response" where
  "transformBody W resp experimentID variantKey spec =
     (case ReadAll (Body resp) of
        (Inl err, drained) \<Rightarrow> (Some (Wrapped ''read body'' err), resp\<lparr>Body := drained\<rparr>)
      | (Inr body, drained) \<Rightarrow>
          let resp' = resp\<lparr>Body := drained\<lparr>Closed := True\<rparr>\<rparr> in
          case HtmlParse W body of
            Inl err \<Rightarrow> (Some (Wrapped ''parse HTML'' err), resp')
          | Inr doc \<Rightarrow>
              case ApplyTransformations (EngineOf W experimentID) doc (Operations spec) of
                (Some err, doc', warnings) \<Rightarrow>
                  (Some (Wrapped ''apply transformations'' err), resp')
              | (None, doc', warnings) \<Rightarrow>
                  case HtmlRender W doc' of
                    Inl err \<Rightarrow> (Some (Wrapped ''render HTML'' err), resp')
                  | Inr transformed \<Rightarrow>
                      (None,
                       addHeaders W
                         (resp'\<lparr>Body := \<lparr>Unread = transformed, ReadError = None,
                                         Closed = False\<rparr>,
                                ContentLength := int (length transformed),
                                Header := HeaderSet (Header resp') ''Content-Length''
                                            (showNat (length transformed))\<rparr>)
                         experimentID variantKey ''hit''))"

definition applyExperiment ::
  "World \<Rightarrow> ExperiFlowMiddleware \<Rightarrow> Response \<Rightarrow> Request \<Rightarrow> string \<Rightarrow> error option \<times> Response" where
  "applyExperiment W m resp req experimentID =
     (let cookieName = ''ef_var_'' @ experimentID in
      case getOrAssignVariant W m req experimentID cookieName of
        (variantID, variantKey, isNew) \<Rightarrow>
          if variantID = [] then (Some (Failure ''failed to assign variant''), resp)
          else
            let resp' = setAssignmentCookie W resp cookieName variantID isNew in
            case GetTransformSpec W experimentID variantID of
              Inl err \<Rightarrow> (Some (Wrapped ''fetch transform spec'' err), resp')
            | Inr spec \<Rightarrow>
                if length (Operations spec) = 0
                then (None, addHeaders W resp' experimentID variantKey ''control'')
                else transformBody W resp' experimentID variantKey spec)"

text \<open>
  The loop of \<^verbatim>\<open>ModifyResponse\<close> over the experiments, in the order the range yields them.
\<close>

fun modifyEach ::
  "World \<Rightarrow> ExperiFlowMiddleware \<Rightarrow> string list \<Rightarrow> Response \<Rightarrow> Request
     \<Rightarrow> error option \<times> Response" where
  "modifyEach W m [] resp req = (None, resp)"
| "modifyEach W m (experimentID # rest) resp req =
     (case applyExperiment W m resp req experimentID of
        (Some err, resp') \<Rightarrow> if FailOpen (config m) then (None, resp') else (Some err, resp')
      | (None, resp') \<Rightarrow> modifyEach W m rest resp' req)"

definition ModifyResponse ::
  "World \<Rightarrow> ExperiFlowMiddleware \<Rightarrow> Response \<Rightarrow> Request \<Rightarrow> error option \<times> Response" where
  "ModifyResponse W m resp req =
     (if \<not> isHTML resp then (None, resp)
      else modifyEach W m (RangeExperiments W (experiments m)) resp req)"

section \<open>Notions of the specification\<close>

subsection \<open>Selectors\<close>





subsection \<open>Attempts in turn\<close>

text \<open>
  The experiments attempted one after the other, each against the response the one before
  it left: the error of the first attempt that fails, and the response after all attempts.
\<close>

fun firstFailure ::
  "World \<Rightarrow> ExperiFlowMiddleware \<Rightarrow> string list \<Rightarrow> Response \<Rightarrow> Request \<Rightarrow> error option" where
  "firstFailure W m [] resp req = None"
| "firstFailure W m (e # es) resp req =
     (case fst (applyExperiment W m resp req e) of
        Some err \<Rightarrow> Some err
      | None \<Rightarrow> firstFailure W m es (snd (applyExperiment W m resp req e)) req)"

definition inTurn ::
  "World \<Rightarrow> ExperiFlowMiddleware \<Rightarrow> string list \<Rightarrow> Response \<Rightarrow> Request \<Rightarrow> Response" where
  "inTurn W m es resp req = foldl (\<lambda>r e. snd (applyExperiment W m r req e)) resp es"

subsection \<open>Style declarations\<close>






definition updated :: "styleMap \<Rightarrow> string \<Rightarrow> string \<Rightarrow> styleMap" where
  "updated parsed p v = (if v = [] then AList.delete p parsed else AList.update p v parsed)"


subsection \<open>Buckets\<close>

text \<open>The first four bytes of a digest as an unsigned integer, most significant byte first.\<close>

definition bigEndian32 :: "byte list \<Rightarrow> nat" where
  "bigEndian32 bs = foldl (\<lambda>a b. 256 * a + unat b) 0 (take 4 bs)"

text \<open>
  The sum of the traffic allocations of the variants up to the \<open>i\<close>-th, added in \<^verbatim>\<open>float64\<close>
  from the first on; and whether a bucket lies below a hundred times that sum.
\<close>

definition runningShare :: "Variant list \<Rightarrow> nat \<Rightarrow> float64" where
  "runningShare vs i = foldl fadd (Finite 0) (map TrafficAllocation (take (Suc i) vs))"

definition covers :: "int \<Rightarrow> Variant list \<Rightarrow> nat \<Rightarrow> bool" where
  "covers bucket vs i \<longleftrightarrow>
     flt (float64_of_int bucket) (fmul (runningShare vs i) (Finite 100))"

text \<open>
  The walk as the specification words it: \<open>cumulative += trafficAllocation * 100\<close>, and the
  first variant with \<open>bucket < cumulative\<close>.
\<close>

fun claimedWalk :: "int \<Rightarrow> float64 \<Rightarrow> Variant list \<Rightarrow> Variant option" where
  "claimedWalk bucket cumulative [] = None"
| "claimedWalk bucket cumulative (v # vs) =
     (let cumulative' = fadd cumulative (fmul (TrafficAllocation v) (Finite 100)) in
      if flt (float64_of_int bucket) cumulative' then Some v
      else claimedWalk bucket cumulative' vs)"

section \<open>Example data\<close>

text \<open>
  A configuration with the defaults of \<^verbatim>\<open>LoadFromEnv\<close>, an HTML response of the origin, a
  request that carries assignment cookies for two experiments, and collaborators for which
  the transform-spec fetch of \<open>exp-1\<close> runs into the deadline while \<open>exp-2\<close> has a spec without
  operations.
\<close>

definition exConfig :: "bool \<Rightarrow> Config" where
  "exConfig failOpen =
     \<lparr>Port = ''8090'', OriginURL = ''http://localhost:8080'',
      ReadTimeout = 10000000000, WriteTimeout = 10000000000,
      APIBaseURL = ''http://localhost:8000'', EdgeToken = [], Timeout = 50000000,
      FailOpen = failOpen, EnableLogging = True, EnableMetrics = True\<rparr>"

definition exResponse :: Response where
  "exResponse =
     \<lparr>Header = [''Content-Type'' \<mapsto> [''text/html; charset=utf-8'']],
      Body = \<lparr>Unread = ''<p>hi</p>'', ReadError = None, Closed = False\<rparr>,
      ContentLength = 9\<rparr>"

definition exRequest :: Request where
  "exRequest =
     \<lparr>Cookies = [(''ef_var_exp-1'', ''v1''), (''ef_var_exp-2'', ''v2'')],
      RemoteAddr = ''10.0.0.1:4711'', UserAgent = ''curl/8''\<rparr>"

definition exControlSpec :: "string \<Rightarrow> string \<Rightarrow> TransformSpec" where
  "exControlSpec e v =
     \<lparr>Version = ''1'', ExperimentID = e, VariantID = v, VariantKey = ''control'',
      Operations = [], TTL = 60, CacheKey = [], ExperimentVersion = []\<rparr>"

definition exEngine :: Engine where
  "exEngine = \<lparr>ParseFragment = (\<lambda>s. Inr []), RangeStyles = (\<lambda>i j m. m)\<rparr>"

definition exLibrary :: Library where
  "exLibrary =
     \<lparr>HmacSHA256 = (\<lambda>key msg. replicate 32 0), SHA256 = (\<lambda>msg. replicate 32 0),
      RandIntn = (\<lambda>n. 0)\<rparr>"

definition exWorld :: World where
  "exWorld =
     \<lparr>GetVariants = (\<lambda>e. Inl (Failure ''connection refused'')),
      GetTransformSpec =
        (\<lambda>e v. if e = ''exp-1'' then Inl DeadlineExceeded else Inr (exControlSpec e v)),
      HtmlParse = (\<lambda>s. Inr (Node DocumentNode [] [] [])),
      HtmlRender = (\<lambda>d. Inr []),
      EngineOf = (\<lambda>e. exEngine),
      GoLibrary = exLibrary,
      CookieString = (\<lambda>c. CookieName c @ ''='' @ CookieValue c),
      SinceMs = (\<lambda>e. 35),
      RangeExperiments = (\<lambda>es. es)\<rparr>"

text \<open>
  The document of a page with one button, \<^verbatim>\<open><button id="cta">Get Started</button>\<close>, as the
  parser builds it; an operation whose selector matches nothing in it, and one that
  rewrites the text of the button.
\<close>

definition exButton :: "string \<Rightarrow> Node" where
  "exButton label =
     Node ElementNode ''button'' [\<lparr>Namespace = [], Key = ''id'', Val = ''cta''\<rparr>]
       [Node TextNode label [] []]"

definition exDocument :: "string \<Rightarrow> Node" where
  "exDocument label =
     Node DocumentNode [] []
       [Node ElementNode ''html'' []
          [Node ElementNode ''head'' [] [],
           Node ElementNode ''body'' [] [exButton label]]]"

definition exHideMissing :: Operation where
  "exHideMissing =
     \<lparr>Type = OpSetStyle, Selector = ''.missing'', Value = ''none'', Property = ''display'',
      Priority = 0\<rparr>"

definition exSetText :: Operation where
  "exSetText =
     \<lparr>Type = OpSetText, Selector = ''#cta'', Value = ''Buy Now'', Property = [],
      Priority = 0\<rparr>"




text \<open>
  Three variants with the traffic allocations that the JSON decoder reads from \<open>0.1\<close>,
  \<open>0.2\<close> and \<open>0.7\<close>, and a library whose HMAC-SHA256 of the message \<open>user-74:exp-1\<close> under
  the key \<open>s\<close> is the digest that \<^verbatim>\<open>crypto/hmac\<close> computes for them,
  \<^verbatim>\<open>4fa884e26e00d2bdbf1fb34b8fecc8ebaad403769abf9e69fba5d5f7d082e9bd\<close>.
\<close>

definition exVariant :: "string \<Rightarrow> bool \<Rightarrow> rat \<Rightarrow> Variant" where
  "exVariant name control share =
     \<lparr>ID = name, Name = name, IsControl = control, TrafficAllocation = round64 share\<rparr>"

definition exVariants :: "Variant list" where
  "exVariants =
     [exVariant ''A'' True (1 / 10), exVariant ''B'' False (2 / 10),
      exVariant ''C'' False (7 / 10)]"

definition exDigest :: "byte list" where
  "exDigest =
     [0x4F, 0xA8, 0x84, 0xE2, 0x6E, 0x00, 0xD2, 0xBD, 0xBF, 0x1F, 0xB3, 0x4B, 0x8F, 0xEC, 0xC8,
      0xEB, 0xAA, 0xD4, 0x03, 0x76, 0x9A, 0xBF, 0x9E, 0x69, 0xFB, 0xA5, 0xD5, 0xF7, 0xD0, 0x82,
      0xE9, 0xBD]"

definition exHmacLibrary :: Library where
  "exHmacLibrary =
     \<lparr>HmacSHA256 =
        (\<lambda>key msg. if key = ''s'' \<and> msg = ''user-74:exp-1'' then exDigest else replicate 32 0),
      SHA256 = (\<lambda>msg. replicate 32 0),
      RandIntn = (\<lambda>n. 0)\<rparr>"

section \<open>The salt of the assigner\<close>

text \<open>
  C5 (as the code has it): constructing the assigner never fails. An empty salt is silently
  replaced by the embedded default \<open>default-salt-change-in-production\<close>; a non-empty salt is
  kept as given.
\<close>

theorem NewAssigner_salt:
  "salt (NewAssigner s) = (if s = [] then ''default-salt-change-in-production'' else s)"
  by (simp add: NewAssigner_def)

text \<open>
  C5 (counterexample): the empty salt is accepted and the assigner carries the embedded
  default, so no startup error is raised.
\<close>

theorem NewAssigner_empty_salt_counterexample:
  "NewAssigner [] = \<lparr>salt = ''default-salt-change-in-production''\<rparr>"
  by (simp add: NewAssigner_def)

section \<open>Selector resolution\<close>






lemma Fields_Nil: "Fields [] = []" by (simp add: Fields_def)







subsection \<open>What a selector returns\<close>






section \<open>Batches of operations\<close>

lemma applyEach_docs:
  "fst (applyEach E i ops (doc, w)) =
     foldl (\<lambda>d (k, op). snd (applyOperation E k d op)) doc (enumerate i ops)"
proof (induction ops arbitrary: i doc w)
  case Nil
  then show ?case by simp
next
  case (Cons op ops)
  obtain e d' where r: "applyOperation E i doc op = (e, d')" by (cases "applyOperation E i doc op")
  show ?case
  proof (cases e)
    case None
    with r Cons show ?thesis by simp
  next
    case (Some err)
    with r Cons show ?thesis by simp
  qed
qed

lemma ApplyTransformations_result:
  "fst (ApplyTransformations E doc ops) = None"
  "fst (snd (ApplyTransformations E doc ops)) =
     foldl (\<lambda>d (k, op). snd (applyOperation E k d op)) doc (enumerate 0 ops)"
  using applyEach_docs[of E 0 ops doc "[]"]
  by (simp_all add: ApplyTransformations_def split: prod.split)

lemma applyOperation_no_match:
  "findNodesBySelector doc (Selector op) = [] \<Longrightarrow>
   applyOperation E i doc op =
     (Some (Failure (''no elements found for selector: '' @ Selector op)), doc)"
  by (simp add: applyOperation_def)

lemma applyNodes_unknown:
  "Type op \<notin> set knownTypes \<Longrightarrow> rs \<noteq> [] \<Longrightarrow>
   applyNodes E i op j rs doc = (Some (Failure (''unknown operation type: '' @ Type op)), doc)"
  by (cases rs) (simp_all add: knownTypes_def)

lemma applyOperation_unknown:
  assumes "Type op \<notin> set knownTypes"
  shows "snd (applyOperation E i doc op) = doc" and "fst (applyOperation E i doc op) \<noteq> None"
  using assms by (simp_all add: applyOperation_def Let_def applyNodes_unknown)

subsection \<open>Isolation of the operations of a batch\<close>

text \<open>
  C6: \<^verbatim>\<open>ApplyTransformations\<close> returns \<^verbatim>\<open>nil\<close> for every document and every list of
  operations, and the document it leaves is the one obtained by running the operations one
  after the other in the order of the list, each on the document the one before it left.
  An operation whose selector matches no node fails with its error and leaves the document
  as it is, and so does an operation of an unknown type; the operations after it still
  run. In particular, after an operation without a match, a second operation has the
  effect it has on the document alone.
\<close>

theorem ApplyTransformations_isolates_operations:
  "fst (ApplyTransformations E doc ops) = None \<and>
   fst (snd (ApplyTransformations E doc ops)) =
     foldl (\<lambda>d (i, op). snd (applyOperation E i d op)) doc (enumerate 0 ops) \<and>
   (findNodesBySelector doc (Selector op) = [] \<longrightarrow>
      applyOperation E i doc op =
        (Some (Failure (''no elements found for selector: '' @ Selector op)), doc)) \<and>
   (Type op \<notin> set knownTypes \<longrightarrow>
      fst (applyOperation E i doc op) \<noteq> None \<and> snd (applyOperation E i doc op) = doc) \<and>
   (findNodesBySelector doc (Selector op1) = [] \<longrightarrow>
      fst (snd (ApplyTransformations E doc [op1, op2])) = snd (applyOperation E 1 doc op2))"
proof (intro conjI impI)
  show "fst (ApplyTransformations E doc ops) = None"
    by (rule ApplyTransformations_result(1))
  show "fst (snd (ApplyTransformations E doc ops)) =
          foldl (\<lambda>d (i, op). snd (applyOperation E i d op)) doc (enumerate 0 ops)"
    by (rule ApplyTransformations_result(2))
next
  assume "findNodesBySelector doc (Selector op) = []"
  then show "applyOperation E i doc op =
               (Some (Failure (''no elements found for selector: '' @ Selector op)), doc)"
    by (rule applyOperation_no_match)
next
  assume u: "Type op \<notin> set knownTypes"
  show "fst (applyOperation E i doc op) \<noteq> None"
    by (rule applyOperation_unknown(2)[OF u])
  show "snd (applyOperation E i doc op) = doc"
    by (rule applyOperation_unknown(1)[OF u])
next
  assume "findNodesBySelector doc (Selector op1) = []"
  then show "fst (snd (ApplyTransformations E doc [op1, op2])) = snd (applyOperation E 1 doc op2)"
    by (simp add: ApplyTransformations_result(2) applyOperation_no_match)
qed

theorem ApplyTransformations_isolates_operations_witness:
  "findNodesBySelector (exDocument ''Get Started'') (Selector exHideMissing) = [] \<and>
   fst (ApplyTransformations exEngine (exDocument ''Get Started'') [exHideMissing, exSetText])
     = None \<and>
   fst (snd (ApplyTransformations exEngine (exDocument ''Get Started'')
               [exHideMissing, exSetText])) = exDocument ''Buy Now''"
proof -
  have n: "findNodesBySelector (exDocument ''Get Started'') (Selector exHideMissing) = []"
    by code_simp
  have s: "snd (applyOperation exEngine 1 (exDocument ''Get Started'') exSetText)
             = exDocument ''Buy Now''"
    by code_simp
  show ?thesis
    using ApplyTransformations_isolates_operations[of exEngine "exDocument ''Get Started''"
        "[exHideMissing, exSetText]" exHideMissing 0 exHideMissing exSetText] n s
    by simp
qed

section \<open>Re-applying an operation\<close>

subsection \<open>Trimming and splitting\<close>










lemma isSpace_simps [simp]:
  "isSpace CHR '' ''" "\<not> isSpace CHR '':''" "\<not> isSpace CHR '';''"
  by (simp_all add: isSpace_def)




































lemma filter_setFirstVal:
  "map Key (setFirstVal k v as) = map Key as"
  by (induction as) auto






lemma setStyle_absent:
  assumes "NType node = ElementNode" "find (\<lambda>a. Key a = ''style'') (Attr node) = None"
  shows "setStyle ord node p v =
           Node ElementNode (Data node)
             (Attr node @ [\<lparr>Namespace = [], Key = ''style'',
                            Val = writeStyle (ord (updated [] p v))\<rparr>])
             (Children node)"
  using assms by (simp add: setStyle_def Let_def updated_def)





lemma yieldsEachOnce_single: "yieldsEachOnce ord \<Longrightarrow> ord [e] = [e]"
proof -
  assume "yieldsEachOnce ord"
  then have "mset (ord [e]) = {#e#}" by (simp add: yieldsEachOnce_def)
  then show ?thesis by (simp add: mset_single_iff_right)
qed

lemma yieldsEachOnce_empty: "yieldsEachOnce ord \<Longrightarrow> ord [] = []"
proof -
  assume "yieldsEachOnce ord"
  then have "mset (ord []) = mset []" unfolding yieldsEachOnce_def by blast
  then show ?thesis by simp
qed




lemma setStyle_alone:
  assumes "NType node = ElementNode" "find (\<lambda>a. Key a = ''style'') (Attr node) = None"
    and "yieldsEachOnce ord" "v \<noteq> []"
  shows "setStyle ord node p v =
           Node ElementNode (Data node)
             (Attr node @ [\<lparr>Namespace = [], Key = ''style'', Val = p @ '': '' @ v\<rparr>])
             (Children node)"
  using setStyle_absent[OF assms(1,2), of ord p v] assms(4) yieldsEachOnce_single[OF assms(3)]
  by (simp add: updated_def writeStyle_def)







subsection \<open>Idempotence\<close>





section \<open>The orchestrator\<close>

subsection \<open>Steps of an attempt\<close>

lemma getOrAssignVariant_cookie:
  assumes "Cookie req cookieName = Some v" "v \<noteq> []"
  shows "getOrAssignVariant W m req experimentID cookieName = (v, [], False)"
  using assms by (simp add: getOrAssignVariant_def)

lemma addHeaders_fields:
  "Body (addHeaders W r e k s) = Body r"
  "ContentLength (addHeaders W r e k s) = ContentLength r"
  "Header (addHeaders W r e k s) ''X-EF-Experiment'' = Some [e]"
  "Header (addHeaders W r e k s) ''X-EF-Variant'' = Some [k]"
  "Header (addHeaders W r e k s) ''X-EF-Transform'' = Some [s]"
  "Header (addHeaders W r e k s) ''X-EF-Timing'' = Some [''total='' @ showInt (SinceMs W e) @ ''ms'']"
  "Header (addHeaders W r e k s) ''Set-Cookie'' = Header r ''Set-Cookie''"
  by (simp_all add: addHeaders_def HeaderSet_def)

lemma setAssignmentCookie_fields:
  "Body (setAssignmentCookie W r c v isNew) = Body r"
  "ContentLength (setAssignmentCookie W r c v isNew) = ContentLength r"
  "k \<noteq> ''Set-Cookie'' \<Longrightarrow> Header (setAssignmentCookie W r c v isNew) k = Header r k"
  "setAssignmentCookie W r c v False = r"
  by (simp_all add: setAssignmentCookie_def Let_def HeaderSet_def HeaderAdd_def)

lemma transformBody_cookie:
  "Header (snd (transformBody W r e k spec)) ''Set-Cookie'' = Header r ''Set-Cookie''"
  by (simp add: transformBody_def Let_def addHeaders_fields HeaderSet_def
      split: prod.split sum.split option.split)

lemma transformBody_success:
  assumes "fst (transformBody W r e k spec) = None"
  shows "Header (snd (transformBody W r e k spec)) ''X-EF-Variant'' = Some [k]"
    and "Header (snd (transformBody W r e k spec)) ''X-EF-Experiment'' = Some [e]"
    and "Header (snd (transformBody W r e k spec)) ''X-EF-Transform'' = Some [''hit'']"
  using assms
  by (auto simp: transformBody_def Let_def addHeaders_fields
      split: prod.splits sum.splits option.splits)

lemma applyExperiment_control:
  assumes "getOrAssignVariant W m req e (''ef_var_'' @ e) = (vid, vkey, isNew)"
    and "vid \<noteq> []"
    and "GetTransformSpec W e vid = Inr spec"
    and "Operations spec = []"
  shows "fst (applyExperiment W m resp req e) = None"
    and "Body (snd (applyExperiment W m resp req e)) = Body resp"
    and "ContentLength (snd (applyExperiment W m resp req e)) = ContentLength resp"
    and "Header (snd (applyExperiment W m resp req e)) ''X-EF-Experiment'' = Some [e]"
    and "Header (snd (applyExperiment W m resp req e)) ''X-EF-Variant'' = Some [vkey]"
    and "Header (snd (applyExperiment W m resp req e)) ''X-EF-Transform'' = Some [''control'']"
    and "Header (snd (applyExperiment W m resp req e)) ''X-EF-Timing'' =
           Some [''total='' @ showInt (SinceMs W e) @ ''ms'']"
  using assms
  by (simp_all add: applyExperiment_def Let_def addHeaders_fields setAssignmentCookie_fields)

lemma getOrAssignVariant_frame:
  assumes "GetVariants W' = GetVariants W" "GoLibrary W' = GoLibrary W"
  shows "getOrAssignVariant W' m req e c = getOrAssignVariant W m req e c"
  unfolding getOrAssignVariant_def assms by (rule refl)

lemma applyExperiment_control_frame:
  assumes "getOrAssignVariant W m req e (''ef_var_'' @ e) = (vid, vkey, isNew)"
    and "vid \<noteq> []"
    and "GetTransformSpec W e vid = Inr spec"
    and "Operations spec = []"
    and same: "GetVariants W' = GetVariants W" "GoLibrary W' = GoLibrary W"
      "GetTransformSpec W' = GetTransformSpec W" "CookieString W' = CookieString W"
      "SinceMs W' = SinceMs W"
  shows "applyExperiment W' m resp req e = applyExperiment W m resp req e"
proof -
  have g': "getOrAssignVariant W' m req e (''ef_var_'' @ e) = (vid, vkey, isNew)"
    using assms(1) getOrAssignVariant_frame[OF same(1,2)] by simp
  have c: "setAssignmentCookie W' resp c v n = setAssignmentCookie W resp c v n" for c v n
    unfolding setAssignmentCookie_def same(4) by (rule refl)
  have h: "addHeaders W' r e k s = addHeaders W r e k s" for r k s
    unfolding addHeaders_def same(5) by (rule refl)
  show ?thesis
    unfolding applyExperiment_def Let_def g' assms(1)
    using assms(2-4) same(3) by (simp add: c h)
qed

lemma applyExperiment_fetch_fails:
  assumes "getOrAssignVariant W m req e (''ef_var_'' @ e) = (vid, vkey, isNew)"
    and "vid \<noteq> []"
    and "GetTransformSpec W e vid = Inl err"
  shows "fst (applyExperiment W m resp req e) = Some (Wrapped ''fetch transform spec'' err)"
    and "Body (snd (applyExperiment W m resp req e)) = Body resp"
    and "ContentLength (snd (applyExperiment W m resp req e)) = ContentLength resp"
    and "k \<noteq> ''Set-Cookie'' \<Longrightarrow> Header (snd (applyExperiment W m resp req e)) k = Header resp k"
  using assms by (simp_all add: applyExperiment_def Let_def setAssignmentCookie_fields)

lemma applyExperiment_not_new:
  assumes g: "getOrAssignVariant W m req e (''ef_var_'' @ e) = (vid, vkey, False)"
  shows "Header (snd (applyExperiment W m resp req e)) ''Set-Cookie'' = Header resp ''Set-Cookie''"
  unfolding applyExperiment_def Let_def g
  by (simp add: addHeaders_fields setAssignmentCookie_fields transformBody_cookie split: sum.split)

lemma applyExperiment_success_headers:
  assumes g: "getOrAssignVariant W m req e (''ef_var_'' @ e) = (vid, vkey, isNew)"
    and ok: "fst (applyExperiment W m resp req e) = None"
  shows "Header (snd (applyExperiment W m resp req e)) ''X-EF-Variant'' = Some [vkey]"
    and "Header (snd (applyExperiment W m resp req e)) ''X-EF-Experiment'' = Some [e]"
    and "Header (snd (applyExperiment W m resp req e)) ''X-EF-Transform'' = Some [''control'']
         \<or> Header (snd (applyExperiment W m resp req e)) ''X-EF-Transform'' = Some [''hit'']"
  using ok unfolding applyExperiment_def Let_def g
  by (auto simp: addHeaders_fields transformBody_success split: sum.splits if_splits)

subsection \<open>The loop over the experiments\<close>

lemma modifyEach_error:
  "fst (modifyEach W m es resp req) =
     (if FailOpen (config m) then None else firstFailure W m es resp req)"
proof (induction es arbitrary: resp)
  case Nil
  then show ?case by simp
next
  case (Cons e es)
  obtain err r' where a: "applyExperiment W m resp req e = (err, r')"
    by (cases "applyExperiment W m resp req e")
  show ?case
  proof (cases err)
    case None
    with a Cons[of r'] show ?thesis by simp
  next
    case (Some x)
    with a show ?thesis by simp
  qed
qed

lemma modifyEach_all_succeed:
  "firstFailure W m es resp req = None \<Longrightarrow>
   snd (modifyEach W m es resp req) = inTurn W m es resp req"
proof (induction es arbitrary: resp)
  case Nil
  then show ?case by (simp add: inTurn_def)
next
  case (Cons e es)
  obtain err r' where a: "applyExperiment W m resp req e = (err, r')"
    by (cases "applyExperiment W m resp req e")
  show ?case
  proof (cases err)
    case None
    with a Cons.prems have "firstFailure W m es r' req = None" by simp
    from Cons.IH[OF this] a None show ?thesis by (simp add: inTurn_def)
  next
    case (Some x)
    with a Cons.prems show ?thesis by simp
  qed
qed

text \<open>
  The loop returns at the first attempt that fails: the experiments after it are not
  attempted, whatever the configuration.
\<close>

lemma modifyEach_stops_at_failure:
  assumes "fst (applyExperiment W m resp req e) = Some err"
  shows "snd (modifyEach W m (e # es) resp req) = snd (applyExperiment W m resp req e)"
  using assms by (cases "applyExperiment W m resp req e") simp

subsection \<open>The example attempts\<close>

lemma ex_isHTML: "isHTML exResponse"
  by (simp add: isHTML_def exResponse_def HeaderGet_def Contains_def)

lemma ex_range: "RangeExperiments exWorld es = es"
  by (simp add: exWorld_def)

lemma ex_cookie:
  "Cookie exRequest (''ef_var_'' @ ''exp-1'') = Some ''v1''"
  "Cookie exRequest (''ef_var_'' @ ''exp-2'') = Some ''v2''"
  by (simp_all add: exRequest_def Cookie_def)

lemma ex_variant:
  "getOrAssignVariant exWorld m exRequest ''exp-1'' (''ef_var_'' @ ''exp-1'') = (''v1'', [], False)"
  "getOrAssignVariant exWorld m exRequest ''exp-2'' (''ef_var_'' @ ''exp-2'') = (''v2'', [], False)"
  by (rule getOrAssignVariant_cookie[OF ex_cookie(1)], simp,
      rule getOrAssignVariant_cookie[OF ex_cookie(2)], simp)

lemma ex_spec:
  "GetTransformSpec exWorld ''exp-1'' v = Inl DeadlineExceeded"
  "GetTransformSpec exWorld ''exp-2'' v = Inr (exControlSpec ''exp-2'' v)"
  by (simp_all add: exWorld_def)

lemma ex_attempt_timeout:
  "applyExperiment exWorld m exResponse exRequest ''exp-1'' =
     (Some (Wrapped ''fetch transform spec'' DeadlineExceeded), exResponse)"
  using ex_variant(1)[of m]
  by (simp add: applyExperiment_def ex_spec setAssignmentCookie_fields)

lemma ex_attempt_control:
  "fst (applyExperiment exWorld m exResponse exRequest ''exp-2'') = None"
  "Header (snd (applyExperiment exWorld m exResponse exRequest ''exp-2'')) ''X-EF-Experiment''
     = Some [''exp-2'']"
  using applyExperiment_control[where W=exWorld and m=m and req=exRequest and e="''exp-2''"
      and resp=exResponse, OF ex_variant(2) _ ex_spec(2)]
  by (simp_all add: exControlSpec_def)

lemma ex_headers:
  "Header exResponse ''X-EF-Experiment'' = None"
  "Header exResponse ''X-EF-Transform'' = None"
  by (simp_all add: exResponse_def)

subsection \<open>Failing open\<close>

text \<open>
  C2 (the code at the failing input): the transform-spec fetch of the only experiment
  runs into the deadline. \<^verbatim>\<open>ModifyResponse\<close> returns \<^verbatim>\<open>nil\<close> and the response is the one of the
  origin, body and headers: no \<open>X-EF-Transform\<close> header is written, neither \<open>timeout\<close> nor
  any other value.
\<close>

theorem spec_fetch_timeout_writes_no_header:
  "GetTransformSpec exWorld ''exp-1'' ''v1'' = Inl DeadlineExceeded \<and>
   ModifyResponse exWorld (NewExperiFlowMiddleware (exConfig True) [''exp-1''])
     exResponse exRequest = (None, exResponse) \<and>
   Header exResponse ''X-EF-Transform'' = None"
  by (simp add: ModifyResponse_def ex_isHTML NewExperiFlowMiddleware_def ex_range
      ex_attempt_timeout exConfig_def ex_spec ex_headers)

text \<open>
  C3 (as the code has it): on every response \<^verbatim>\<open>ModifyResponse\<close> returns \<^verbatim>\<open>nil\<close> when the
  configuration has \<open>FailOpen\<close> set, and otherwise the error of the first attempt that fails,
  if one does; a response that is not HTML is returned as it is. When no attempt fails,
  every configured experiment is attempted, in the order of the range over the experiment
  map, each against the response the one before it left.
\<close>

theorem ModifyResponse_fails_open:
  "fst (ModifyResponse W m resp req) =
     (if FailOpen (config m) \<or> \<not> isHTML resp then None
      else firstFailure W m (RangeExperiments W (experiments m)) resp req) \<and>
   (\<not> isHTML resp \<longrightarrow> snd (ModifyResponse W m resp req) = resp) \<and>
   (isHTML resp \<and> firstFailure W m (RangeExperiments W (experiments m)) resp req = None \<longrightarrow>
      snd (ModifyResponse W m resp req) =
        inTurn W m (RangeExperiments W (experiments m)) resp req)"
  by (simp add: ModifyResponse_def modifyEach_error modifyEach_all_succeed)

theorem ModifyResponse_fails_open_witness:
  "isHTML exResponse \<and>
   firstFailure exWorld (NewExperiFlowMiddleware (exConfig True) [''exp-2''])
     (RangeExperiments exWorld (experiments (NewExperiFlowMiddleware (exConfig True) [''exp-2''])))
     exResponse exRequest = None \<and>
   fst (ModifyResponse exWorld (NewExperiFlowMiddleware (exConfig True) [''exp-2''])
          exResponse exRequest) = None \<and>
   snd (ModifyResponse exWorld (NewExperiFlowMiddleware (exConfig True) [''exp-2''])
          exResponse exRequest) =
     snd (applyExperiment exWorld (NewExperiFlowMiddleware (exConfig True) [''exp-2''])
            exResponse exRequest ''exp-2'')"
  using ModifyResponse_fails_open[of exWorld "NewExperiFlowMiddleware (exConfig True) [''exp-2'']"
      exResponse exRequest]
  by (simp add: ex_isHTML ex_range NewExperiFlowMiddleware_def ex_attempt_control inTurn_def)

text \<open>
  C3 (counterexample): with \<open>FailOpen\<close> unset, the failure of the attempt for \<open>exp-1\<close> is
  returned to the proxy; and with \<open>FailOpen\<close> set, the loop returns at that failure, so that
  \<open>exp-2\<close> is not attempted and the response stays without the headers which its attempt
  would have written.
\<close>

theorem ModifyResponse_counterexample:
  "fst (ModifyResponse exWorld (NewExperiFlowMiddleware (exConfig False) [''exp-1'', ''exp-2''])
          exResponse exRequest) = Some (Wrapped ''fetch transform spec'' DeadlineExceeded) \<and>
   ModifyResponse exWorld (NewExperiFlowMiddleware (exConfig True) [''exp-1'', ''exp-2''])
     exResponse exRequest = (None, exResponse) \<and>
   Header exResponse ''X-EF-Experiment'' = None \<and>
   fst (applyExperiment exWorld (NewExperiFlowMiddleware (exConfig True) [''exp-1'', ''exp-2''])
          exResponse exRequest ''exp-2'') = None \<and>
   Header (snd (applyExperiment exWorld
                  (NewExperiFlowMiddleware (exConfig True) [''exp-1'', ''exp-2''])
                  exResponse exRequest ''exp-2'')) ''X-EF-Experiment'' = Some [''exp-2'']"
  by (simp add: ModifyResponse_def ex_isHTML NewExperiFlowMiddleware_def ex_range
      ex_attempt_timeout exConfig_def ex_headers ex_attempt_control)

subsection \<open>The control path\<close>

text \<open>
  C8: when the variant of an attempt is resolved and the transform spec fetched for it has
  no operations, the attempt succeeds; the body of the response is the stream it was, not
  read and not closed, and the content length is unchanged; the headers \<open>X-EF-Experiment\<close>,
  \<open>X-EF-Variant\<close>, \<open>X-EF-Transform\<close> with the value \<open>control\<close>, and \<open>X-EF-Timing\<close> are set. The
  outcome does not depend on the parser, the renderer or the mutation engine: none of them
  is called.
\<close>

theorem control_path_leaves_body_untouched:
  assumes "getOrAssignVariant W m req e (''ef_var_'' @ e) = (vid, vkey, isNew)"
    and "vid \<noteq> []"
    and "GetTransformSpec W e vid = Inr spec"
    and "Operations spec = []"
  shows "fst (applyExperiment W m resp req e) = None \<and>
         Body (snd (applyExperiment W m resp req e)) = Body resp \<and>
         ContentLength (snd (applyExperiment W m resp req e)) = ContentLength resp \<and>
         Header (snd (applyExperiment W m resp req e)) ''X-EF-Experiment'' = Some [e] \<and>
         Header (snd (applyExperiment W m resp req e)) ''X-EF-Variant'' = Some [vkey] \<and>
         Header (snd (applyExperiment W m resp req e)) ''X-EF-Transform'' = Some [''control''] \<and>
         Header (snd (applyExperiment W m resp req e)) ''X-EF-Timing'' =
           Some [''total='' @ showInt (SinceMs W e) @ ''ms''] \<and>
         (\<forall>W'. GetVariants W' = GetVariants W \<and> GoLibrary W' = GoLibrary W \<and>
               GetTransformSpec W' = GetTransformSpec W \<and> CookieString W' = CookieString W \<and>
               SinceMs W' = SinceMs W \<longrightarrow>
               applyExperiment W' m resp req e = applyExperiment W m resp req e)"
proof (intro conjI allI impI)
  fix W' :: World
  assume "GetVariants W' = GetVariants W \<and> GoLibrary W' = GoLibrary W \<and>
          GetTransformSpec W' = GetTransformSpec W \<and> CookieString W' = CookieString W \<and>
          SinceMs W' = SinceMs W"
  then show "applyExperiment W' m resp req e = applyExperiment W m resp req e"
    by (elim conjE) (rule applyExperiment_control_frame[OF assms])
qed (rule applyExperiment_control[OF assms])+

theorem control_path_leaves_body_untouched_witness:
  "getOrAssignVariant exWorld (NewExperiFlowMiddleware (exConfig True) [''exp-2'']) exRequest
     ''exp-2'' (''ef_var_'' @ ''exp-2'') = (''v2'', [], False) \<and>
   ''v2'' \<noteq> [] \<and>
   GetTransformSpec exWorld ''exp-2'' ''v2'' = Inr (exControlSpec ''exp-2'' ''v2'') \<and>
   Operations (exControlSpec ''exp-2'' ''v2'') = [] \<and>
   fst (applyExperiment exWorld (NewExperiFlowMiddleware (exConfig True) [''exp-2''])
          exResponse exRequest ''exp-2'') = None \<and>
   Body (snd (applyExperiment exWorld (NewExperiFlowMiddleware (exConfig True) [''exp-2''])
                exResponse exRequest ''exp-2'')) =
     \<lparr>Unread = ''<p>hi</p>'', ReadError = None, Closed = False\<rparr> \<and>
   Header (snd (applyExperiment exWorld (NewExperiFlowMiddleware (exConfig True) [''exp-2''])
                  exResponse exRequest ''exp-2'')) ''X-EF-Transform'' = Some [''control''] \<and>
   Header (snd (applyExperiment exWorld (NewExperiFlowMiddleware (exConfig True) [''exp-2''])
                  exResponse exRequest ''exp-2'')) ''X-EF-Timing'' = Some [''total=35ms'']"
proof -
  have ops: "Operations (exControlSpec ''exp-2'' ''v2'') = []"
    by (simp add: exControlSpec_def)
  have ne: "''v2'' \<noteq> []" by simp
  have ms: "showInt (SinceMs exWorld ''exp-2'') = ''35''"
    by (simp add: exWorld_def showInt_def showNat.simps[of 35] showNat.simps[of 3])
  let ?r = "applyExperiment exWorld (NewExperiFlowMiddleware (exConfig True) [''exp-2''])
              exResponse exRequest ''exp-2''"
  have "fst ?r = None \<and> Body (snd ?r) = Body exResponse \<and>
        Header (snd ?r) ''X-EF-Transform'' = Some [''control''] \<and>
        Header (snd ?r) ''X-EF-Timing'' = Some [''total='' @ showInt (SinceMs exWorld ''exp-2'') @ ''ms'']"
    using control_path_leaves_body_untouched[OF ex_variant(2) ne ex_spec(2) ops,
        of "NewExperiFlowMiddleware (exConfig True) [''exp-2'']" exResponse]
    by blast
  then show ?thesis
    using ex_variant(2) ex_spec(2) ops ms by (simp add: exResponse_def)
qed

subsection \<open>Variants resolved from the cookie\<close>

text \<open>
  C9: when the request carries a cookie \<open>ef_var_{experimentID}\<close> with a value that is not
  empty, the variant resolution returns that value as the variant id, the empty string as
  the variant key, and marks the assignment as not new. The attempt then leaves the
  \<open>Set-Cookie\<close> header as it was, and when it succeeds (a hit or the control path) the
  \<open>X-EF-Variant\<close> header it writes is the empty string.
\<close>

theorem cookie_variant_has_empty_key:
  assumes "Cookie req (''ef_var_'' @ e) = Some v" and "v \<noteq> []"
  shows "getOrAssignVariant W m req e (''ef_var_'' @ e) = (v, [], False) \<and>
         Header (snd (applyExperiment W m resp req e)) ''Set-Cookie'' = Header resp ''Set-Cookie'' \<and>
         (fst (applyExperiment W m resp req e) = None \<longrightarrow>
            Header (snd (applyExperiment W m resp req e)) ''X-EF-Variant'' = Some [[]] \<and>
            (Header (snd (applyExperiment W m resp req e)) ''X-EF-Transform'' = Some [''control'']
             \<or> Header (snd (applyExperiment W m resp req e)) ''X-EF-Transform'' = Some [''hit'']))"
proof -
  have g: "getOrAssignVariant W m req e (''ef_var_'' @ e) = (v, [], False)"
    using assms by (rule getOrAssignVariant_cookie)
  show ?thesis
    using g applyExperiment_not_new[OF g] applyExperiment_success_headers(1,3)[OF g]
    by blast
qed

theorem cookie_variant_has_empty_key_witness:
  "Cookie exRequest (''ef_var_'' @ ''exp-2'') = Some ''v2'' \<and> ''v2'' \<noteq> [] \<and>
   getOrAssignVariant exWorld (NewExperiFlowMiddleware (exConfig True) [''exp-2'']) exRequest
     ''exp-2'' (''ef_var_'' @ ''exp-2'') = (''v2'', [], False) \<and>
   fst (applyExperiment exWorld (NewExperiFlowMiddleware (exConfig True) [''exp-2''])
          exResponse exRequest ''exp-2'') = None \<and>
   Header (snd (applyExperiment exWorld (NewExperiFlowMiddleware (exConfig True) [''exp-2''])
                  exResponse exRequest ''exp-2'')) ''X-EF-Variant'' = Some [[]] \<and>
   Header (snd (applyExperiment exWorld (NewExperiFlowMiddleware (exConfig True) [''exp-2''])
                  exResponse exRequest ''exp-2'')) ''Set-Cookie'' = None"
proof -
  have ne: "''v2'' \<noteq> []" by simp
  show ?thesis
    using cookie_variant_has_empty_key[OF ex_cookie(2) ne,
        of exWorld "NewExperiFlowMiddleware (exConfig True) [''exp-2'']" exResponse]
      ex_cookie(2) ex_attempt_control(1)
    by (simp add: exResponse_def)
qed

section \<open>Variant assignment\<close>

subsection \<open>Evaluating \<^verbatim>\<open>float64\<close> operations\<close>

lemma floor_rat_numeral: "\<lfloor>(numeral a / numeral b :: rat)\<rfloor> = numeral a div numeral b"
  by (metis floor_divide_of_int_eq of_int_numeral)

lemma ceiling_rat_numeral: "\<lceil>(numeral a / numeral b :: rat)\<rceil> = - (- numeral a div numeral b)"
  by (metis ceiling_def floor_divide_of_int_eq minus_divide_left of_int_minus of_int_numeral)

lemmas float64_eval = floor_rat_numeral ceiling_rat_numeral round64_def floorLog2_def pow2_def
  roundHalfEven_def Let_def compute_bitlen float64_of_int_def

lemma ex_walk: "assignWalk 30 (Finite 0) exVariants = Some (exVariants ! 1)"
  by (simp add: exVariants_def exVariant_def float64_eval)

lemma ex_claimed: "claimedWalk 30 (Finite 0) exVariants = Some (exVariants ! 2)"
  by (simp add: exVariants_def exVariant_def float64_eval)

lemma ex_covers: "\<not> covers 30 exVariants 0" "covers 30 exVariants 1"
  by (simp_all add: covers_def runningShare_def exVariants_def exVariant_def float64_eval)

lemma ex_getBucket: "getBucket exHmacLibrary (NewAssigner ''s'') ''user-74'' ''exp-1'' = 30"
  by (simp add: getBucket_def exHmacLibrary_def NewAssigner_def exDigest_def EncodeToString_def
      hexDigit_def ParseUint16_def hexValue_def)

subsection \<open>Buckets and the walk over the variants\<close>

lemma hexValue_hexDigit: "n < 16 \<Longrightarrow> hexValue (hexDigit n) = Some n"
proof -
  assume "n < 16"
  have "list_all (\<lambda>d. hexValue (hexDigit d) = Some d) [0..<16]"
    by (simp add: upt_rec hexDigit_def hexValue_def)
  with \<open>n < 16\<close> show ?thesis
    by (simp add: list_all_iff)
qed

lemma parseHex_digits:
  assumes "\<And>d. d \<in> set ds \<Longrightarrow> d < 16" "(acc + 1) * 16 ^ length ds \<le> 2 ^ 64"
  shows "parseHex acc (map hexDigit ds) = Some (foldl (\<lambda>a d. 16 * a + d) acc ds)"
  using assms
proof (induction ds arbitrary: acc)
  case Nil
  then show ?case by simp
next
  case (Cons d ds)
  have d: "d < 16" using Cons.prems(1) by simp
  have "(16 * acc + d + 1) * 16 ^ length ds \<le> (16 * (acc + 1)) * 16 ^ length ds"
    using d by (intro mult_right_mono) auto
  also have "\<dots> = (acc + 1) * 16 ^ length (d # ds)" by (simp add: algebra_simps)
  finally have b: "(16 * acc + d + 1) * 16 ^ length ds \<le> 2 ^ 64" using Cons.prems(2) by simp
  have "(1 :: nat) \<le> 16 ^ length ds" by simp
  then have "16 * acc + d + 1 \<le> (16 * acc + d + 1) * 16 ^ length ds"
    using mult_le_mono2[of 1 "16 ^ length ds" "16 * acc + d + 1"] by simp
  with b have small: "\<not> (2 :: nat) ^ 64 \<le> 16 * acc + d" by linarith
  have "parseHex (16 * acc + d) (map hexDigit ds)
          = Some (foldl (\<lambda>a d. 16 * a + d) (16 * acc + d) ds)"
    using Cons.prems(1) b by (intro Cons.IH) auto
  then show ?case using small by (simp add: hexValue_hexDigit[OF d])
qed

lemma byte_digits: "unat (b :: byte) div 16 < 16" "unat b mod 16 < 16"
  using unsigned_less[of b, where 'a = nat] by simp_all

lemma byte_value: "16 * (unat (b :: byte) div 16) + unat b mod 16 = unat b"
  by simp

lemma ParseUint16_digest:
  assumes "4 \<le> length digest"
  shows "ParseUint16 (take 8 (EncodeToString digest)) = Some (bigEndian32 digest)"
proof -
  obtain b0 b1 b2 b3 rest where d: "digest = b0 # b1 # b2 # b3 # rest"
    using assms by (cases digest; cases "tl digest"; cases "tl (tl digest)";
        cases "tl (tl (tl digest))") auto
  let ?ds = "[unat b0 div 16, unat b0 mod 16, unat b1 div 16, unat b1 mod 16,
              unat b2 div 16, unat b2 mod 16, unat b3 div 16, unat b3 mod 16]"
  have t: "take 8 (EncodeToString digest) = map hexDigit ?ds"
    by (simp add: d EncodeToString_def)
  have "parseHex 0 (map hexDigit ?ds) = Some (foldl (\<lambda>a d. 16 * a + d) 0 ?ds)"
    using byte_digits by (intro parseHex_digits) auto
  moreover have "foldl (\<lambda>a d. 16 * a + d) 0 ?ds = bigEndian32 digest"
    using byte_value[of b0] byte_value[of b1] byte_value[of b2] byte_value[of b3]
    by (simp add: d bigEndian32_def) 
  ultimately show ?thesis by (simp add: ParseUint16_def t)
qed

lemma getBucket_digest:
  assumes "4 \<le> length (HmacSHA256 L (salt a) (userID @ '':'' @ experimentID))"
  shows "getBucket L a userID experimentID =
           int (bigEndian32 (HmacSHA256 L (salt a) (userID @ '':'' @ experimentID)) mod 100)"
  using ParseUint16_digest[OF assms] by (simp add: getBucket_def)

lemma assignWalk_hit:
  assumes "i < length vs"
    and "flt (float64_of_int b)
           (fmul (foldl fadd c (map TrafficAllocation (take (Suc i) vs))) (Finite 100))"
    and "\<And>j. j < i \<Longrightarrow> \<not> flt (float64_of_int b)
           (fmul (foldl fadd c (map TrafficAllocation (take (Suc j) vs))) (Finite 100))"
  shows "assignWalk b c vs = Some (vs ! i)"
  using assms
proof (induction vs arbitrary: c i)
  case Nil
  then show ?case by simp
next
  case (Cons v vs)
  show ?case
  proof (cases i)
    case 0
    with Cons.prems(2) show ?thesis by (simp add: Let_def)
  next
    case (Suc k)
    have first: "\<not> flt (float64_of_int b) (fmul (fadd c (TrafficAllocation v)) (Finite 100))"
      using Cons.prems(3)[of 0] Suc by simp
    have "assignWalk b (fadd c (TrafficAllocation v)) vs = Some (vs ! k)"
    proof (rule Cons.IH)
      show "k < length vs" using Cons.prems(1) Suc by simp
      show "flt (float64_of_int b)
              (fmul (foldl fadd (fadd c (TrafficAllocation v))
                       (map TrafficAllocation (take (Suc k) vs))) (Finite 100))"
        using Cons.prems(2) Suc by simp
      fix j assume "j < k"
      then show "\<not> flt (float64_of_int b)
              (fmul (foldl fadd (fadd c (TrafficAllocation v))
                       (map TrafficAllocation (take (Suc j) vs))) (Finite 100))"
        using Cons.prems(3)[of "Suc j"] Suc by simp
    qed
    with first Suc show ?thesis by (simp add: Let_def)
  qed
qed

lemma assignWalk_miss:
  assumes "\<And>i. i < length vs \<Longrightarrow> \<not> flt (float64_of_int b)
           (fmul (foldl fadd c (map TrafficAllocation (take (Suc i) vs))) (Finite 100))"
  shows "assignWalk b c vs = None"
  using assms
proof (induction vs arbitrary: c)
  case Nil
  then show ?case by simp
next
  case (Cons v vs)
  have first: "\<not> flt (float64_of_int b) (fmul (fadd c (TrafficAllocation v)) (Finite 100))"
    using Cons.prems[of 0] by simp
  have "assignWalk b (fadd c (TrafficAllocation v)) vs = None"
  proof (rule Cons.IH)
    fix i assume "i < length vs"
    then show "\<not> flt (float64_of_int b)
              (fmul (foldl fadd (fadd c (TrafficAllocation v))
                       (map TrafficAllocation (take (Suc i) vs))) (Finite 100))"
      using Cons.prems[of "Suc i"] by simp
  qed
  with first show ?case by (simp add: Let_def)
qed

lemma AssignVariant_first_covering:
  assumes "2 \<le> length vs" "i < length vs"
    and "covers (getBucket L a u e) vs i" "\<And>j. j < i \<Longrightarrow> \<not> covers (getBucket L a u e) vs j"
  shows "AssignVariant L a u e vs = Some (vs ! i)"
  using assms(1) assignWalk_hit[of i vs "getBucket L a u e" "Finite 0"] assms(2-4)
  by (auto simp add: AssignVariant_def covers_def runningShare_def Let_def)

lemma AssignVariant_fallback:
  assumes "2 \<le> length vs" "\<And>i. i < length vs \<Longrightarrow> \<not> covers (getBucket L a u e) vs i"
  shows "AssignVariant L a u e vs = Some (vs ! 0)"
  using assms(1) assignWalk_miss[of vs "getBucket L a u e" "Finite 0"] assms(2)
  by (auto simp add: AssignVariant_def covers_def runningShare_def Let_def)

lemma getBucket_same_hmac:
  assumes "HmacSHA256 L' = HmacSHA256 L"
    and "4 \<le> length (HmacSHA256 L (salt a) (u @ '':'' @ e))"
  shows "getBucket L' a u e = getBucket L a u e"
  using getBucket_digest[of L a u e] getBucket_digest[of L' a u e] assms by simp

lemma AssignVariant_same_hmac:
  assumes "HmacSHA256 L' = HmacSHA256 L"
    and "4 \<le> length (HmacSHA256 L (salt a) (u @ '':'' @ e))"
  shows "AssignVariant L' a u e vs = AssignVariant L a u e vs"
  using getBucket_same_hmac[OF assms] by (simp add: AssignVariant_def)

subsection \<open>The assignment\<close>

text \<open>
  C1 (as the code has it): \<^verbatim>\<open>AssignVariant\<close> returns no variant for the empty list and the
  only variant of a list of one. For two variants or more, with the 32 bytes of the
  HMAC-SHA256 digest of \<open>userID:experimentID\<close> under the salt, the first eight hexadecimal
  digits of the digest always parse, to the first four bytes as a big-endian number, and the
  bucket is that number modulo 100. The variants are walked in the given order with the
  running \<^verbatim>\<open>float64\<close> sum of their allocations; the first variant for which the bucket is
  below a hundred times that sum is returned, and the first variant of the list when there
  is none. The result is a function of user, experiment, salt, variants and the digest
  alone: no random draw enters it.
\<close>

theorem AssignVariant_walks_cumulative_shares:
  "AssignVariant L a userID experimentID [] = None \<and>
   AssignVariant L a userID experimentID [v] = Some v \<and>
   (4 \<le> length (HmacSHA256 L (salt a) (userID @ '':'' @ experimentID)) \<longrightarrow>
      ParseUint16 (take 8 (EncodeToString (HmacSHA256 L (salt a) (userID @ '':'' @ experimentID))))
        = Some (bigEndian32 (HmacSHA256 L (salt a) (userID @ '':'' @ experimentID))) \<and>
      getBucket L a userID experimentID
        = int (bigEndian32 (HmacSHA256 L (salt a) (userID @ '':'' @ experimentID)) mod 100) \<and>
      (\<forall>L'. HmacSHA256 L' = HmacSHA256 L \<longrightarrow>
         AssignVariant L' a userID experimentID vs = AssignVariant L a userID experimentID vs)) \<and>
   (2 \<le> length vs \<longrightarrow>
      (\<forall>i. i < length vs \<and> covers (getBucket L a userID experimentID) vs i \<and>
           (\<forall>j. j < i \<longrightarrow> \<not> covers (getBucket L a userID experimentID) vs j) \<longrightarrow>
           AssignVariant L a userID experimentID vs = Some (vs ! i)) \<and>
      ((\<forall>i. i < length vs \<longrightarrow> \<not> covers (getBucket L a userID experimentID) vs i) \<longrightarrow>
         AssignVariant L a userID experimentID vs = Some (vs ! 0)))"
proof (intro conjI impI allI)
  show "AssignVariant L a userID experimentID [] = None"
    by (simp add: AssignVariant_def)
  show "AssignVariant L a userID experimentID [v] = Some v"
    by (simp add: AssignVariant_def)
next
  assume d: "4 \<le> length (HmacSHA256 L (salt a) (userID @ '':'' @ experimentID))"
  show "ParseUint16 (take 8 (EncodeToString (HmacSHA256 L (salt a) (userID @ '':'' @ experimentID))))
          = Some (bigEndian32 (HmacSHA256 L (salt a) (userID @ '':'' @ experimentID)))"
    using d by (rule ParseUint16_digest)
  show "getBucket L a userID experimentID
          = int (bigEndian32 (HmacSHA256 L (salt a) (userID @ '':'' @ experimentID)) mod 100)"
    using d by (rule getBucket_digest)
  fix L' :: Library
  assume "HmacSHA256 L' = HmacSHA256 L"
  then show "AssignVariant L' a userID experimentID vs = AssignVariant L a userID experimentID vs"
    using d by (rule AssignVariant_same_hmac)
next
  fix i
  assume l: "2 \<le> length vs"
    and i: "i < length vs \<and> covers (getBucket L a userID experimentID) vs i \<and>
            (\<forall>j. j < i \<longrightarrow> \<not> covers (getBucket L a userID experimentID) vs j)"
  show "AssignVariant L a userID experimentID vs = Some (vs ! i)"
    using l i by (intro AssignVariant_first_covering) auto
next
  assume l: "2 \<le> length vs"
    and n: "\<forall>i. i < length vs \<longrightarrow> \<not> covers (getBucket L a userID experimentID) vs i"
  show "AssignVariant L a userID experimentID vs = Some (vs ! 0)"
    using l n by (intro AssignVariant_fallback) auto
qed

theorem AssignVariant_walks_cumulative_shares_witness:
  "2 \<le> length exVariants \<and>
   4 \<le> length (HmacSHA256 exHmacLibrary (salt (NewAssigner ''s'')) (''user-74'' @ '':'' @ ''exp-1'')) \<and>
   getBucket exHmacLibrary (NewAssigner ''s'') ''user-74'' ''exp-1'' = 30 \<and>
   \<not> covers 30 exVariants 0 \<and> covers 30 exVariants 1 \<and>
   AssignVariant exHmacLibrary (NewAssigner ''s'') ''user-74'' ''exp-1'' exVariants
     = Some (exVariants ! 1)"
proof -
  let ?b = "getBucket exHmacLibrary (NewAssigner ''s'') ''user-74'' ''exp-1''"
  have l: "2 \<le> length exVariants" by (simp add: exVariants_def)
  have d: "4 \<le> length (HmacSHA256 exHmacLibrary (salt (NewAssigner ''s''))
                          (''user-74'' @ '':'' @ ''exp-1''))"
    by (simp add: exHmacLibrary_def NewAssigner_def exDigest_def)
  have "\<forall>i. i < length exVariants \<and> covers ?b exVariants i \<and>
            (\<forall>j. j < i \<longrightarrow> \<not> covers ?b exVariants j) \<longrightarrow>
            AssignVariant exHmacLibrary (NewAssigner ''s'') ''user-74'' ''exp-1'' exVariants
              = Some (exVariants ! i)"
    using AssignVariant_walks_cumulative_shares[where L = exHmacLibrary
        and a = "NewAssigner ''s''" and userID = "''user-74''" and experimentID = "''exp-1''"
        and vs = exVariants] l
    by blast
  then have "1 < length exVariants \<and> covers ?b exVariants 1 \<and>
             (\<forall>j. j < 1 \<longrightarrow> \<not> covers ?b exVariants j) \<longrightarrow>
             AssignVariant exHmacLibrary (NewAssigner ''s'') ''user-74'' ''exp-1'' exVariants
               = Some (exVariants ! 1)"
    by (rule spec)
  moreover have "1 < length exVariants" by (simp add: exVariants_def)
  moreover have "\<forall>j. j < (1 :: nat) \<longrightarrow> \<not> covers ?b exVariants j"
    by (simp add: ex_getBucket ex_covers(1))
  ultimately show ?thesis
    using l d ex_getBucket ex_covers by simp
qed

text \<open>
  C1 (counterexample): the variants have the allocations \<open>0.1\<close>, \<open>0.2\<close> and \<open>0.7\<close>, and the
  bucket of user \<open>user-74\<close> in experiment \<open>exp-1\<close> under the salt \<open>s\<close> is 30. The code adds
  \<open>0.1 + 0.2\<close> to \<open>0.30000000000000004\<close> and compares 30 with \<open>30.000000000000004\<close>: it returns
  the second variant. Accumulating \<open>trafficAllocation * 100\<close> gives \<open>10 + 20 = 30\<close>, which 30
  is not below: that walk returns the third variant.
\<close>

theorem AssignVariant_rounding_counterexample:
  "getBucket exHmacLibrary (NewAssigner ''s'') ''user-74'' ''exp-1'' = 30 \<and>
   AssignVariant exHmacLibrary (NewAssigner ''s'') ''user-74'' ''exp-1'' exVariants
     = Some (exVariants ! 1) \<and>
   claimedWalk 30 (Finite 0) exVariants = Some (exVariants ! 2) \<and>
   Name (exVariants ! 1) = ''B'' \<and> Name (exVariants ! 2) = ''C''"
proof -
  have "AssignVariant exHmacLibrary (NewAssigner ''s'') ''user-74'' ''exp-1'' exVariants
          = Some (exVariants ! 1)"
    using ex_walk by (simp add: AssignVariant_def ex_getBucket) (simp add: exVariants_def)
  moreover have "Name (exVariants ! 1) = ''B''" "Name (exVariants ! 2) = ''C''"
    by (simp_all add: exVariants_def exVariant_def)
  ultimately show ?thesis using ex_getBucket ex_claimed by simp
qed


end
